theory Spec2Isabelle
  imports Complex_Main
begin

section \<open>The meme generator (app.py)\<close>

text \<open>
  The program draws two captions on an image with the Pillow library and fetches a
  caption suggestion over HTTP with the requests library. Image objects are mutable and
  passed by reference, so they live in an explicit store; the calls made on the drawing
  library and the messages shown in the page are recorded in the order they happen.
  The libraries themselves are not part of the program: what they compute is a parameter
  of the model (\<open>pillow\<close>, \<open>net\<close>).
\<close>

subsection \<open>Values\<close>

type_synonym rgb = "nat \<times> nat \<times> nat"

text \<open>An RGB bitmap: \<open>image.size\<close> is \<open>(im_width, im_height)\<close>, pixels in row-major order.\<close>

record image =
  im_width :: nat
  im_height :: nat
  im_pixels :: "rgb list"

type_synonym ref = nat

text \<open>The font objects of \<open>ImageFont\<close>: one loaded from a file at a size, or the built-in one.\<close>

datatype font = FreeTypeFont string int | DefaultFont

datatype py_exception =
    IOError | ValueError | Timeout | ConnectionError | HTTPError nat
  | JSONDecodeError | KeyError | IndexError | TypeError | AttributeError

text \<open>One call \<open>draw.text(xy, text, font=font, fill=fill)\<close> on the drawing context of an image.\<close>

record text_call =
  tc_image :: ref
  tc_xy :: "real \<times> real"
  tc_text :: string
  tc_font :: font
  tc_fill :: string

text \<open>What the program shows in the page: \<open>st.warning(msg)\<close>, \<open>st.error(msg)\<close>, and
  \<open>st.error(f"...{e}")\<close> with the exception it formats.\<close>

datatype ui_event =
    StWarning string
  | StError string
  | StErrorExc string py_exception

text \<open>
  The Pillow functions the renderer calls. \<open>ImageFont_truetype\<close> raises when the font cannot
  be loaded; \<open>ImageDraw_textbbox\<close> gives (left, top, right, bottom) of a text drawn at an
  anchor; \<open>ImageDraw_text\<close> is the effect of one text drawing on the bitmap.
\<close>

record pillow =
  ImageFont_truetype :: "string \<Rightarrow> int \<Rightarrow> py_exception + font"
  ImageFont_load_default :: font
  ImageDraw_textbbox :: "real \<times> real \<Rightarrow> string \<Rightarrow> font \<Rightarrow> real \<times> real \<times> real \<times> real"
  ImageDraw_text :: "real \<times> real \<Rightarrow> string \<Rightarrow> font \<Rightarrow> string \<Rightarrow> image \<Rightarrow> image"

text \<open>The store of image objects, the next free reference, the drawing calls made so far
  and the messages shown so far.\<close>

record world =
  objs :: "ref \<Rightarrow> image"
  next_ref :: ref
  drawn :: "text_call list"
  ui :: "ui_event list"

subsection \<open>Strings\<close>

text \<open>\<open>str.upper()\<close> on ASCII text: the letters a to z become A to Z, every other
  character stays. (Python upper-cases non-ASCII letters too; the model covers ASCII captions.)\<close>

definition islower_char :: "char \<Rightarrow> bool" where
  "islower_char c = (97 \<le> (of_char c :: nat) \<and> (of_char c :: nat) \<le> 122)"

definition upper_char :: "char \<Rightarrow> char" where
  "upper_char c = (if islower_char c then char_of ((of_char c :: nat) - 32) else c)"

definition upper :: "string \<Rightarrow> string" where
  "upper s = map upper_char s"

subsection \<open>The renderer: \<open>draw_text_on_image\<close> (lines 36 to 90)\<close>

text \<open>\<open>draw.text(xy, text, font=font, fill=fill)\<close>: the bitmap of the image the context
  \<open>d\<close> was made for is drawn on in place.\<close>

definition draw_text :: "pillow \<Rightarrow> ref \<Rightarrow> real \<times> real \<Rightarrow> string \<Rightarrow> font \<Rightarrow> string \<Rightarrow> world \<Rightarrow> world" where
  "draw_text lib d xy s f fill w =
     w\<lparr>objs := (objs w)(d := ImageDraw_text lib xy s f fill (objs w d)),
       drawn := drawn w @ [\<lparr>tc_image = d, tc_xy = xy, tc_text = s, tc_font = f, tc_fill = fill\<rparr>]\<rparr>"

definition font_warning :: string where
  "font_warning =
     ''Impact font not found. Using default font. For best results, install the 'Impact' font on your system.''"

text \<open>Lines 52 to 58: the font is loaded at size \<open>int(width / 10)\<close>; only \<open>IOError\<close> is
  handled, by a warning and the default font.\<close>

definition load_font :: "pillow \<Rightarrow> int \<Rightarrow> world \<Rightarrow> py_exception + (font \<times> world)" where
  "load_font lib font_size w =
     (case ImageFont_truetype lib ''impact.ttf'' font_size of
        Inr f \<Rightarrow> Inr (f, w)
      | Inl e \<Rightarrow>
          if e = IOError
          then Inr (ImageFont_load_default lib,
                    w\<lparr>ui := ui w @ [StWarning font_warning]\<rparr>)
          else Inl e)"

text \<open>Lines 61 to 68: the nested function, with the \<open>draw\<close> and \<open>font\<close> it closes over.\<close>

definition draw_text_with_outline :: "pillow \<Rightarrow> ref \<Rightarrow> font \<Rightarrow> string \<Rightarrow> real \<Rightarrow> real \<Rightarrow> world \<Rightarrow> world" where
  "draw_text_with_outline lib d f s x y w =
     (let w1 = draw_text lib d (x - 2, y - 2) s f ''black'' w;
          w2 = draw_text lib d (x + 2, y - 2) s f ''black'' w1;
          w3 = draw_text lib d (x - 2, y + 2) s f ''black'' w2;
          w4 = draw_text lib d (x + 2, y + 2) s f ''black'' w3
      in draw_text lib d (x, y) s f ''white'' w4)"

definition draw_text_on_image :: "pillow \<Rightarrow> ref \<Rightarrow> string \<Rightarrow> string \<Rightarrow> world \<Rightarrow> py_exception + (ref \<times> world)" where
  "draw_text_on_image lib img top_text bottom_text w =
     (let d = img;
          width = im_width (objs w img);
          height = im_height (objs w img);
          font_size = int (width div 10)
      in case load_font lib font_size w of
           Inl e \<Rightarrow> Inl e
         | Inr (f, w0) \<Rightarrow>
             let w1 =
                   (if top_text \<noteq> [] then
                      (let top_text = upper top_text in
                       case ImageDraw_textbbox lib (0, 0) top_text f of
                         (b0, b1, b2, b3) \<Rightarrow>
                           let top_text_width = b2 - b0;
                               top_text_height = b3 - b1;
                               x = (real width - top_text_width) / 2;
                               y = 10
                           in draw_text_with_outline lib d f top_text x y w0)
                    else w0);
                 w2 =
                   (if bottom_text \<noteq> [] then
                      (let bottom_text = upper bottom_text in
                       case ImageDraw_textbbox lib (0, 0) bottom_text f of
                         (b0, b1, b2, b3) \<Rightarrow>
                           let bottom_text_width = b2 - b0;
                               bottom_text_height = b3 - b1;
                               x = (real width - bottom_text_width) / 2;
                               y = real height - bottom_text_height - 10
                           in draw_text_with_outline lib d f bottom_text x y w1)
                    else w1)
             in Inr (img, w2))"

text \<open>Line 166: the page calls the renderer on \<open>image.copy()\<close>, when one of the two
  captions is not empty. \<open>Image.copy\<close> makes a new image object with the same content.\<close>

definition image_copy :: "ref \<Rightarrow> world \<Rightarrow> ref \<times> world" where
  "image_copy img w =
     (next_ref w, w\<lparr>objs := (objs w)(next_ref w := objs w img), next_ref := Suc (next_ref w)\<rparr>)"

definition create_meme :: "pillow \<Rightarrow> ref \<Rightarrow> string \<Rightarrow> string \<Rightarrow> world \<Rightarrow> py_exception + (ref option \<times> world)" where
  "create_meme lib img top_text bottom_text w =
     (if top_text \<noteq> [] \<or> bottom_text \<noteq> [] then
        (case image_copy img w of
           (c, w1) \<Rightarrow>
             (case draw_text_on_image lib c top_text bottom_text w1 of
                Inl e \<Rightarrow> Inl e
              | Inr (meme_image, w2) \<Rightarrow> Inr (Some meme_image, w2)))
      else Inr (None, w))"

subsection \<open>The caption suggestion: \<open>get_ai_caption\<close> (lines 94 to 125)\<close>

text \<open>
  A parsed JSON value (a number stands for both \<open>int\<close> and \<open>float\<close>: the
  operations used here treat them alike; an object is the parsed dictionary, looked up by
  key). A response carries its status and the value \<open>response.json()\<close> parses, if the
  body is JSON. What the network answers to the POST is the parameter \<open>requests_post\<close>:
  it raises (a timeout, a connection error) or returns a response.
\<close>

datatype json =
    JNull | JBool bool | JNumber int | JString string
  | JArray "json list" | JObject "(string \<times> json) list"

record response =
  status_code :: nat
  json_body :: "json option"

record net =
  requests_post :: "string \<Rightarrow> json \<Rightarrow> nat \<Rightarrow> py_exception + response"

text \<open>\<open>base64.b64encode(image_bytes).decode('utf-8')\<close>, on bytes as numbers below 256.\<close>

definition b64_alphabet :: string where
  "b64_alphabet = ''ABCDEFGHIJKLMNOPQRSTUVWXYZabcdefghijklmnopqrstuvwxyz0123456789+/''"

fun b64encode :: "nat list \<Rightarrow> string" where
  "b64encode (a # b # c # rest) =
     (let n = a * 65536 + b * 256 + c
      in [b64_alphabet ! (n div 262144), b64_alphabet ! (n div 4096 mod 64),
          b64_alphabet ! (n div 64 mod 64), b64_alphabet ! (n mod 64)] @ b64encode rest)"
| "b64encode [a, b] =
     (let n = a * 65536 + b * 256
      in [b64_alphabet ! (n div 262144), b64_alphabet ! (n div 4096 mod 64),
          b64_alphabet ! (n div 64 mod 64), CHR ''=''])"
| "b64encode [a] =
     (let n = a * 65536
      in [b64_alphabet ! (n div 262144), b64_alphabet ! (n div 4096 mod 64), CHR ''='', CHR ''=''])"
| "b64encode [] = []"

text \<open>\<open>str.strip()\<close>: the ASCII characters Python counts as whitespace are removed from
  both ends.\<close>

definition isspace :: "char \<Rightarrow> bool" where
  "isspace c = ((of_char c :: nat) \<in> {9, 10, 11, 12, 13, 28, 29, 30, 31, 32})"

definition strip :: "string \<Rightarrow> string" where
  "strip s = rev (dropWhile isspace (rev (dropWhile isspace s)))"

text \<open>\<open>response.raise_for_status()\<close> of the requests library raises \<open>HTTPError\<close> for the
  client and server error statuses, 400 to 599, and for no other status.\<close>

definition raise_for_status :: "response \<Rightarrow> py_exception + unit" where
  "raise_for_status r =
     (if 400 \<le> status_code r \<and> status_code r < 600 then Inl (HTTPError (status_code r)) else Inr ())"

definition response_json :: "response \<Rightarrow> py_exception + json" where
  "response_json r = (case json_body r of None \<Rightarrow> Inl JSONDecodeError | Some j \<Rightarrow> Inr j)"

text \<open>\<open>"candidates" in result\<close>: a key test on a dictionary, a membership test on a list, a
  substring test on a string, \<open>TypeError\<close> on anything else.\<close>

fun is_substring :: "string \<Rightarrow> string \<Rightarrow> bool" where
  "is_substring k [] = (k = [])"
| "is_substring k (c # s) = (take (length k) (c # s) = k \<or> is_substring k s)"

fun py_contains :: "string \<Rightarrow> json \<Rightarrow> py_exception + bool" where
  "py_contains k (JObject kvs) = Inr (k \<in> set (map fst kvs))"
| "py_contains k (JArray xs) = Inr (JString k \<in> set xs)"
| "py_contains k (JString s) = Inr (is_substring k s)"
| "py_contains k JNull = Inl TypeError"
| "py_contains k (JBool b) = Inl TypeError"
| "py_contains k (JNumber n) = Inl TypeError"

text \<open>\<open>x["key"]\<close>, \<open>x[0]\<close> and \<open>x.strip()\<close> on a parsed JSON value, with the exception
  Python raises where the value has the wrong type or lacks the item.\<close>

fun py_getitem_str :: "json \<Rightarrow> string \<Rightarrow> py_exception + json" where
  "py_getitem_str (JObject kvs) k = (case map_of kvs k of None \<Rightarrow> Inl KeyError | Some v \<Rightarrow> Inr v)"
| "py_getitem_str JNull k = Inl TypeError"
| "py_getitem_str (JBool b) k = Inl TypeError"
| "py_getitem_str (JNumber n) k = Inl TypeError"
| "py_getitem_str (JString s) k = Inl TypeError"
| "py_getitem_str (JArray xs) k = Inl TypeError"

fun py_getitem_0 :: "json \<Rightarrow> py_exception + json" where
  "py_getitem_0 (JArray xs) = (case xs of [] \<Rightarrow> Inl IndexError | x # rest \<Rightarrow> Inr x)"
| "py_getitem_0 (JString s) = (case s of [] \<Rightarrow> Inl IndexError | c # rest \<Rightarrow> Inr (JString [c]))"
| "py_getitem_0 (JObject kvs) = Inl KeyError"
| "py_getitem_0 JNull = Inl TypeError"
| "py_getitem_0 (JBool b) = Inl TypeError"
| "py_getitem_0 (JNumber n) = Inl TypeError"

fun py_strip :: "json \<Rightarrow> py_exception + string" where
  "py_strip (JString s) = Inr (strip s)"
| "py_strip JNull = Inl AttributeError"
| "py_strip (JBool b) = Inl AttributeError"
| "py_strip (JNumber n) = Inl AttributeError"
| "py_strip (JArray xs) = Inl AttributeError"
| "py_strip (JObject kvs) = Inl AttributeError"

text \<open>Sequencing inside the \<open>try\<close> block: the first exception ends it.\<close>

definition try_bind :: "py_exception + 'a \<Rightarrow> ('a \<Rightarrow> py_exception + 'b) \<Rightarrow> py_exception + 'b" where
  "try_bind m k = (case m of Inl e \<Rightarrow> Inl e | Inr x \<Rightarrow> k x)"

definition api_url :: "string \<Rightarrow> string" where
  "api_url api_key =
     ''https://generativelanguage.googleapis.com/v1beta/models/gemini-2.0-flash:generateContent?key='' @ api_key"

definition prompt :: string where
  "prompt = ''Analyze this image and generate a short, funny meme caption for it. Provide only the text for the caption, without any extra formatting or labels.''"

definition payload :: "nat list \<Rightarrow> json" where
  "payload image_bytes =
     JObject [(''contents'',
       JArray [JObject [(''parts'',
         JArray [JObject [(''text'', JString prompt)],
                 JObject [(''inline_data'',
                   JObject [(''mime_type'', JString ''image/jpeg''),
                            (''data'', JString (b64encode image_bytes))])]])]])]"

text \<open>Line 119: \<open>result["candidates"][0]["content"]["parts"][0]["text"].strip()\<close>.\<close>

definition read_caption :: "json \<Rightarrow> py_exception + string" where
  "read_caption result =
            try_bind (py_getitem_str result ''candidates'') (\<lambda>candidates.
            try_bind (py_getitem_0 candidates) (\<lambda>candidate.
            try_bind (py_getitem_str candidate ''content'') (\<lambda>content.
            try_bind (py_getitem_str content ''parts'') (\<lambda>parts.
            try_bind (py_getitem_0 parts) (\<lambda>part.
            try_bind (py_getitem_str part ''text'') (\<lambda>text_value.
            py_strip text_value))))))"

text \<open>One run of the body of \<open>get_ai_caption\<close>, from the messages shown so far to the
  returned string and the messages after it. Every exception of the \<open>try\<close> block is
  caught by \<open>except Exception\<close>.\<close>

definition get_ai_caption :: "net \<Rightarrow> nat list \<Rightarrow> string \<Rightarrow> ui_event list \<Rightarrow> string \<times> ui_event list" where
  "get_ai_caption env image_bytes api_key u =
     (case
        try_bind (requests_post env (api_url api_key) (payload image_bytes) 60) (\<lambda>response.
        try_bind (raise_for_status response) (\<lambda>_.
        try_bind (response_json response) (\<lambda>result.
        try_bind (py_contains ''candidates'' result) (\<lambda>found.
          if found then
            try_bind (read_caption result) (\<lambda>caption. Inr (caption, u))
          else
            Inr ([], u @ [StError ''AI could not generate a caption. The response was malformed.''])))))
      of
        Inr res \<Rightarrow> res
      | Inl e \<Rightarrow> ([], u @ [StErrorExc ''An error occurred while contacting the AI: '' e]))"

subsection \<open>Observing a call of the renderer\<close>

text \<open>The drawing calls made between two states, and their split into the two caption
  slots: a slot that is drawn takes five calls, the top slot first.\<close>

definition new_calls :: "world \<Rightarrow> world \<Rightarrow> text_call list" where
  "new_calls w w' = drop (length (drawn w)) (drawn w')"

definition top_calls :: "string \<Rightarrow> world \<Rightarrow> world \<Rightarrow> text_call list" where
  "top_calls top_text w w' = (if top_text = [] then [] else take 5 (new_calls w w'))"

definition bottom_calls :: "string \<Rightarrow> world \<Rightarrow> world \<Rightarrow> text_call list" where
  "bottom_calls top_text w w' = (if top_text = [] then new_calls w w' else drop 5 (new_calls w w'))"

text \<open>The five calls of one outlined caption, the \<open>x\<close> of lines 76 and 86 and the \<open>y\<close> of
  line 87, written as functions of the measured box.\<close>

definition outline_calls :: "ref \<Rightarrow> font \<Rightarrow> string \<Rightarrow> real \<Rightarrow> real \<Rightarrow> text_call list" where
  "outline_calls d f s x y =
     [\<lparr>tc_image = d, tc_xy = (x - 2, y - 2), tc_text = s, tc_font = f, tc_fill = ''black''\<rparr>,
      \<lparr>tc_image = d, tc_xy = (x + 2, y - 2), tc_text = s, tc_font = f, tc_fill = ''black''\<rparr>,
      \<lparr>tc_image = d, tc_xy = (x - 2, y + 2), tc_text = s, tc_font = f, tc_fill = ''black''\<rparr>,
      \<lparr>tc_image = d, tc_xy = (x + 2, y + 2), tc_text = s, tc_font = f, tc_fill = ''black''\<rparr>,
      \<lparr>tc_image = d, tc_xy = (x, y), tc_text = s, tc_font = f, tc_fill = ''white''\<rparr>]"

definition caption_x :: "pillow \<Rightarrow> font \<Rightarrow> nat \<Rightarrow> string \<Rightarrow> real" where
  "caption_x lib f width s =
     (case ImageDraw_textbbox lib (0, 0) s f of (b0, b1, b2, b3) \<Rightarrow> (real width - (b2 - b0)) / 2)"

definition bottom_y :: "pillow \<Rightarrow> font \<Rightarrow> nat \<Rightarrow> string \<Rightarrow> real" where
  "bottom_y lib f height s =
     (case ImageDraw_textbbox lib (0, 0) s f of (b0, b1, b2, b3) \<Rightarrow> real height - (b3 - b1) - 10)"

text \<open>The bounding box of the text of a drawing call, where the call draws it, and the
  parts of a box the claims speak of.\<close>

definition placed_bbox :: "pillow \<Rightarrow> text_call \<Rightarrow> real \<times> real \<times> real \<times> real" where
  "placed_bbox lib c = ImageDraw_textbbox lib (tc_xy c) (tc_text c) (tc_font c)"

definition bbox_width :: "real \<times> real \<times> real \<times> real \<Rightarrow> real" where
  "bbox_width box = (case box of (l, t, r, b) \<Rightarrow> r - l)"

definition bbox_mid_x :: "real \<times> real \<times> real \<times> real \<Rightarrow> real" where
  "bbox_mid_x box = (case box of (l, t, r, b) \<Rightarrow> (l + r) / 2)"

definition bbox_top :: "real \<times> real \<times> real \<times> real \<Rightarrow> real" where
  "bbox_top box = (case box of (l, t, r, b) \<Rightarrow> t)"

definition bbox_bottom :: "real \<times> real \<times> real \<times> real \<Rightarrow> real" where
  "bbox_bottom box = (case box of (l, t, r, b) \<Rightarrow> b)"

text \<open>Two facts about Pillow that the geometry of a caption rests on: drawing a text does
  not resize the bitmap, and the bounding box of a text drawn at an anchor is the box
  measured at the origin, moved to the anchor.\<close>

definition keeps_size :: "pillow \<Rightarrow> bool" where
  "keeps_size lib =
     (\<forall>xy s f fill im.
        im_width (ImageDraw_text lib xy s f fill im) = im_width im \<and>
        im_height (ImageDraw_text lib xy s f fill im) = im_height im)"

definition bbox_moves :: "pillow \<Rightarrow> bool" where
  "bbox_moves lib =
     (\<forall>x y s f.
        ImageDraw_textbbox lib (x, y) s f =
          (case ImageDraw_textbbox lib (0, 0) s f of
             (b0, b1, b2, b3) \<Rightarrow> (x + b0, y + b1, x + b2, y + b3)))"

text \<open>
  The caption at the known path of the response, \<open>candidates[0].content.parts[0].text\<close>,
  when the response has that shape; a fetch has failed when the POST raised, the status is
  an error status, the body is not JSON or the body has not that shape.
\<close>

fun json_field :: "string \<Rightarrow> json \<Rightarrow> json option" where
  "json_field k (JObject kvs) = map_of kvs k"
| "json_field k JNull = None"
| "json_field k (JBool b) = None"
| "json_field k (JNumber n) = None"
| "json_field k (JString s) = None"
| "json_field k (JArray xs) = None"

fun json_first :: "json \<Rightarrow> json option" where
  "json_first (JArray xs) = (case xs of [] \<Rightarrow> None | x # rest \<Rightarrow> Some x)"
| "json_first JNull = None"
| "json_first (JBool b) = None"
| "json_first (JNumber n) = None"
| "json_first (JString s) = None"
| "json_first (JObject kvs) = None"

fun json_string :: "json \<Rightarrow> string option" where
  "json_string (JString s) = Some s"
| "json_string JNull = None"
| "json_string (JBool b) = None"
| "json_string (JNumber n) = None"
| "json_string (JArray xs) = None"
| "json_string (JObject kvs) = None"

definition caption_in_response :: "json \<Rightarrow> string option" where
  "caption_in_response j =
     Option.bind (json_field ''candidates'' j) (\<lambda>candidates.
     Option.bind (json_first candidates) (\<lambda>candidate.
     Option.bind (json_field ''content'' candidate) (\<lambda>content.
     Option.bind (json_field ''parts'' content) (\<lambda>parts.
     Option.bind (json_first parts) (\<lambda>part.
     Option.bind (json_field ''text'' part) json_string)))))"

definition fetch_failed :: "py_exception + response \<Rightarrow> bool" where
  "fetch_failed outcome =
     (case outcome of
        Inl e \<Rightarrow> True
      | Inr r \<Rightarrow>
          (400 \<le> status_code r \<and> status_code r < 600) \<or>
          (case json_body r of None \<Rightarrow> True | Some j \<Rightarrow> caption_in_response j = None))"

fun is_st_error :: "ui_event \<Rightarrow> bool" where
  "is_st_error (StError m) = True"
| "is_st_error (StErrorExc m e) = True"
| "is_st_error (StWarning m) = False"

subsection \<open>A drawing library to run the model on\<close>

text \<open>
  A stand-in for Pillow with block glyphs, for evaluating the model on concrete inputs.
  A font file loads when it is among the installed ones. The built-in font has cells of
  6 by 11 pixels with no bearing; a loaded font of size \<open>n\<close> has cells \<open>n div 2\<close> wide, a
  left bearing of \<open>n div 20\<close> and its glyph tops \<open>n div 5\<close> below the anchor, as the
  ascender gap of a scalable font. Drawing a text fills its bounding box.
\<close>

definition block_bbox :: "real \<times> real \<Rightarrow> string \<Rightarrow> font \<Rightarrow> real \<times> real \<times> real \<times> real" where
  "block_bbox xy s f =
     (case f of
        DefaultFont \<Rightarrow> (fst xy, snd xy, fst xy + 6 * real (length s), snd xy + 11)
      | FreeTypeFont name n \<Rightarrow>
          (fst xy + real_of_int (n div 20), snd xy + real_of_int (n div 5),
           fst xy + real_of_int (n div 20) + real_of_int (n div 2) * real (length s),
           snd xy + real_of_int n))"

definition in_box :: "real \<times> real \<times> real \<times> real \<Rightarrow> nat \<Rightarrow> nat \<Rightarrow> bool" where
  "in_box box col row =
     (case box of (l, t, r, b) \<Rightarrow> l \<le> real col \<and> real col < r \<and> t \<le> real row \<and> real row < b)"

definition ink :: "string \<Rightarrow> rgb" where
  "ink fill = (if fill = ''white'' then (255, 255, 255) else (0, 0, 0))"

definition block_paint :: "real \<times> real \<times> real \<times> real \<Rightarrow> rgb \<Rightarrow> image \<Rightarrow> image" where
  "block_paint box c im =
     im\<lparr>im_pixels :=
          map (\<lambda>(i, p). if in_box box (i mod im_width im) (i div im_width im) then c else p)
            (enumerate 0 (im_pixels im))\<rparr>"

definition block_pillow :: "string list \<Rightarrow> pillow" where
  "block_pillow installed =
     \<lparr>ImageFont_truetype =
        (\<lambda>name n. if name \<in> set installed then Inr (FreeTypeFont name n) else Inl IOError),
      ImageFont_load_default = DefaultFont,
      ImageDraw_textbbox = block_bbox,
      ImageDraw_text = (\<lambda>xy s f fill. block_paint (block_bbox xy s f) (ink fill))\<rparr>"

text \<open>A grey bitmap of the given size, and a state with nothing drawn or shown yet in which
  reference 0 is allocated and holds that bitmap (as every reference not yet allocated does).\<close>

definition grey_image :: "nat \<Rightarrow> nat \<Rightarrow> image" where
  "grey_image wd ht = \<lparr>im_width = wd, im_height = ht, im_pixels = replicate (wd * ht) (128, 128, 128)\<rparr>"

definition grey_world :: "nat \<Rightarrow> nat \<Rightarrow> world" where
  "grey_world wd ht = \<lparr>objs = (\<lambda>r. grey_image wd ht), next_ref = 1, drawn = [], ui = []\<rparr>"

text \<open>A network that gives one fixed answer, and a response body of the expected shape.\<close>

definition canned_net :: "py_exception + response \<Rightarrow> net" where
  "canned_net outcome = \<lparr>requests_post = (\<lambda>url body timeout. outcome)\<rparr>"

definition caption_json :: "string \<Rightarrow> json" where
  "caption_json s =
     JObject [(''candidates'',
       JArray [JObject [(''content'',
         JObject [(''parts'', JArray [JObject [(''text'', JString s)]])])]])]"

section \<open>Properties of the renderer\<close>

subsection \<open>What a call of the renderer does\<close>

lemma load_font_frame:
  "load_font lib n w = Inr (f, w0) \<Longrightarrow>
   objs w0 = objs w \<and> drawn w0 = drawn w \<and> next_ref w0 = next_ref w"
  by (auto simp: load_font_def split: sum.splits if_splits)

lemma outline_drawn:
  "drawn (draw_text_with_outline lib d f s x y w) = drawn w @ outline_calls d f s x y"
  by (simp add: draw_text_with_outline_def Let_def draw_text_def outline_calls_def)

lemma outline_objs_other:
  "r \<noteq> d \<Longrightarrow> objs (draw_text_with_outline lib d f s x y w) r = objs w r"
  by (simp add: draw_text_with_outline_def Let_def draw_text_def)

lemma outline_frame:
  "next_ref (draw_text_with_outline lib d f s x y w) = next_ref w \<and>
   ui (draw_text_with_outline lib d f s x y w) = ui w"
  by (simp add: draw_text_with_outline_def Let_def draw_text_def)

lemma outline_size:
  "keeps_size lib \<Longrightarrow>
   im_width (objs (draw_text_with_outline lib d f s x y w) r) = im_width (objs w r) \<and>
   im_height (objs (draw_text_with_outline lib d f s x y w) r) = im_height (objs w r)"
  by (simp add: draw_text_with_outline_def Let_def draw_text_def keeps_size_def)

lemma length_outline_calls: "length (outline_calls d f s x y) = 5"
  by (simp add: outline_calls_def)

lemma texts_outline_calls: "map tc_text (outline_calls d f s x y) = replicate 5 s"
  by (simp add: outline_calls_def numeral_eq_Suc)

lemma fonts_outline_calls: "map tc_font (outline_calls d f s x y) = replicate 5 f"
  by (simp add: outline_calls_def numeral_eq_Suc)

lemma ys_outline_calls:
  "map (snd \<circ> tc_xy) (outline_calls d f s x y) = [y - 2, y - 2, y + 2, y + 2, y]"
  by (simp add: outline_calls_def)

lemma last_outline_calls:
  "last (outline_calls d f s x y) =
     \<lparr>tc_image = d, tc_xy = (x, y), tc_text = s, tc_font = f, tc_fill = ''white''\<rparr>"
  by (simp add: outline_calls_def)

lemma render_ref: "draw_text_on_image lib img t b w = Inr (r, w') \<Longrightarrow> r = img"
  by (auto simp: draw_text_on_image_def Let_def split: sum.splits prod.splits if_splits)

lemma render_font:
  "draw_text_on_image lib img t b w = Inr (r, w') \<Longrightarrow>
   \<exists>f w0. load_font lib (int (im_width (objs w img) div 10)) w = Inr (f, w0)"
  by (auto simp: draw_text_on_image_def Let_def split: sum.splits prod.splits if_splits)

lemma render_new_calls:
  assumes "draw_text_on_image lib img t b w = Inr (r, w')"
      and "load_font lib (int (im_width (objs w img) div 10)) w = Inr (f, w0)"
  shows "new_calls w w' =
      (if t = [] then []
       else outline_calls img f (upper t) (caption_x lib f (im_width (objs w img)) (upper t)) 10) @
      (if b = [] then []
       else outline_calls img f (upper b) (caption_x lib f (im_width (objs w img)) (upper b))
              (bottom_y lib f (im_height (objs w img)) (upper b)))"
  using assms load_font_frame[OF assms(2)]
  by (auto simp: draw_text_on_image_def Let_def new_calls_def outline_drawn caption_x_def bottom_y_def
           split: prod.splits if_splits)

lemma render_top_calls:
  assumes "draw_text_on_image lib img t b w = Inr (r, w')"
      and "load_font lib (int (im_width (objs w img) div 10)) w = Inr (f, w0)"
      and "t \<noteq> []"
  shows "top_calls t w w' =
           outline_calls img f (upper t) (caption_x lib f (im_width (objs w img)) (upper t)) 10"
  using render_new_calls[OF assms(1,2)] assms(3)
  by (simp add: top_calls_def length_outline_calls)

lemma render_bottom_calls:
  assumes "draw_text_on_image lib img t b w = Inr (r, w')"
      and "load_font lib (int (im_width (objs w img) div 10)) w = Inr (f, w0)"
      and "b \<noteq> []"
  shows "bottom_calls t w w' =
           outline_calls img f (upper b) (caption_x lib f (im_width (objs w img)) (upper b))
             (bottom_y lib f (im_height (objs w img)) (upper b))"
  using render_new_calls[OF assms(1,2)] assms(3)
  by (simp add: bottom_calls_def length_outline_calls)

lemma render_other_objs:
  "draw_text_on_image lib img t b w = Inr (r, w') \<Longrightarrow> r' \<noteq> img \<Longrightarrow> objs w' r' = objs w r'"
  by (auto simp: draw_text_on_image_def Let_def outline_objs_other dest!: load_font_frame
           split: sum.splits prod.splits if_splits)

lemma render_size:
  "keeps_size lib \<Longrightarrow> draw_text_on_image lib img t b w = Inr (r, w') \<Longrightarrow>
   im_width (objs w' r') = im_width (objs w r') \<and> im_height (objs w' r') = im_height (objs w r')"
  by (auto simp: draw_text_on_image_def Let_def outline_size dest!: load_font_frame
           split: sum.splits prod.splits if_splits)

lemma render_ui:
  "draw_text_on_image lib img t b w = Inr (r, w') \<Longrightarrow>
   load_font lib (int (im_width (objs w img) div 10)) w = Inr (f, w0) \<Longrightarrow> ui w' = ui w0"
  by (auto simp: draw_text_on_image_def Let_def outline_frame split: prod.splits if_splits)

lemma render_empty:
  "draw_text_on_image lib img [] [] w = Inr (r, w') \<Longrightarrow>
   r = img \<and> objs w' = objs w \<and> drawn w' = drawn w"
  by (auto simp: draw_text_on_image_def Let_def dest!: load_font_frame
           split: sum.splits prod.splits if_splits)

lemma render_fails:
  "draw_text_on_image lib img t b w = Inl e \<longleftrightarrow>
   e \<noteq> IOError \<and> ImageFont_truetype lib ''impact.ttf'' (int (im_width (objs w img) div 10)) = Inl e"
  by (auto simp: draw_text_on_image_def Let_def load_font_def split: sum.splits prod.splits if_splits)

lemma upper_no_lower: "c \<in> set (upper s) \<Longrightarrow> \<not> islower_char c"
  by (auto simp: upper_def upper_char_def islower_char_def split: if_splits)

lemma image_copy_simps:
  "fst (image_copy img w) = next_ref w"
  "objs (snd (image_copy img w)) = (objs w)(next_ref w := objs w img)"
  "next_ref (snd (image_copy img w)) = Suc (next_ref w)"
  by (simp_all add: image_copy_def)

subsection \<open>The block library\<close>

lemma block_pillow_keeps_size: "keeps_size (block_pillow fonts)"
  by (simp add: keeps_size_def block_pillow_def block_paint_def)

lemma block_pillow_bbox_moves: "bbox_moves (block_pillow fonts)"
  by (auto simp: bbox_moves_def block_pillow_def block_bbox_def split: font.splits)

lemma block_pillow_sel:
  "ImageDraw_textbbox (block_pillow fonts) = block_bbox"
  "ImageDraw_text (block_pillow fonts) = (\<lambda>xy s f fill. block_paint (block_bbox xy s f) (ink fill))"
  "ImageFont_load_default (block_pillow fonts) = DefaultFont"
  by (simp_all add: block_pillow_def)

lemma block_load_font_default:
  "load_font (block_pillow []) n w = Inr (DefaultFont, w\<lparr>ui := ui w @ [StWarning font_warning]\<rparr>)"
  by (simp add: load_font_def block_pillow_def)

lemma block_load_font_impact:
  "load_font (block_pillow [''impact.ttf'']) n w = Inr (FreeTypeFont ''impact.ttf'' n, w)"
  by (simp add: load_font_def block_pillow_def)

lemma block_render_returns:
  "draw_text_on_image (block_pillow fonts) img t b w =
     Inr (img, snd (projr (draw_text_on_image (block_pillow fonts) img t b w)))"
proof (cases "draw_text_on_image (block_pillow fonts) img t b w")
  case (Inl e)
  then show ?thesis by (auto simp: render_fails block_pillow_def split: if_splits)
next
  case (Inr p)
  then show ?thesis using render_ref[of "block_pillow fonts" img t b w "fst p" "snd p"]
    by (cases p) simp
qed

lemma nth_block_paint:
  "i < length (im_pixels im) \<Longrightarrow>
   im_pixels (block_paint box c im) ! i =
     (if in_box box (i mod im_width im) (i div im_width im) then c else im_pixels im ! i)"
  by (simp add: block_paint_def nth_enumerate_eq)

lemma length_block_paint: "length (im_pixels (block_paint box c im)) = length (im_pixels im)"
  by (simp add: block_paint_def)

lemma width_block_paint: "im_width (block_paint box c im) = im_width im"
  by (simp add: block_paint_def)

lemma upper_hello: "upper ''hello'' = ''HELLO''"
  by code_simp

lemma upper_bye: "upper ''bye'' = ''BYE''"
  by code_simp

lemma upper_a: "upper ''a'' = ''A''"
  by code_simp

lemma upper_space: "upper '' '' = '' ''"
  by code_simp

lemma block_render_a:
  "draw_text_on_image (block_pillow []) r ''a'' [] (grey_world 10 12\<lparr>next_ref := n\<rparr>) =
     Inr (r, draw_text_with_outline (block_pillow []) r DefaultFont ''A'' 2 10
               (grey_world 10 12\<lparr>next_ref := n, ui := [StWarning font_warning]\<rparr>))"
  by (simp add: draw_text_on_image_def block_load_font_default Let_def block_pillow_sel
        block_bbox_def upper_a grey_world_def grey_image_def)

lemma block_outline_a_pixel:
  "im_pixels (objs (draw_text_with_outline (block_pillow []) r DefaultFont ''A'' 2 10
               (grey_world 10 12\<lparr>next_ref := n, ui := [StWarning font_warning]\<rparr>)) r) ! 102 = (255, 255, 255)"
  by (simp add: draw_text_with_outline_def draw_text_def Let_def block_pillow_sel nth_block_paint
        length_block_paint width_block_paint grey_world_def grey_image_def block_bbox_def in_box_def ink_def)

lemma block_render_hello_bye:
  "new_calls (grey_world 400 400)
     (snd (projr (draw_text_on_image (block_pillow [''impact.ttf'']) 0 ''hello'' ''bye'' (grey_world 400 400)))) =
   outline_calls 0 (FreeTypeFont ''impact.ttf'' 40) ''HELLO'' 150 10 @
   outline_calls 0 (FreeTypeFont ''impact.ttf'' 40) ''BYE'' 170 358"
proof -
  have f: "load_font (block_pillow [''impact.ttf'']) (int (im_width (objs (grey_world 400 400) 0) div 10)) (grey_world 400 400)
             = Inr (FreeTypeFont ''impact.ttf'' 40, grey_world 400 400)"
    by (simp add: block_load_font_impact grey_world_def grey_image_def)
  show ?thesis
    using render_new_calls[OF block_render_returns f, of "''hello''" "''bye''"]
    by (simp add: upper_hello upper_bye caption_x_def bottom_y_def block_pillow_sel block_bbox_def
          grey_world_def grey_image_def)
qed

subsection \<open>The claims about the renderer\<close>

text \<open>
  C1. For every image and every pair of captions, the bitmap the renderer returns has
  the width and the height of the input image. The renderer returns the image object it
  was given, and nothing it does to it but \<open>draw.text\<close> touches the bitmap, which
  keeps the size.
\<close>

theorem C1_size_preserved:
  assumes "keeps_size lib"
      and "draw_text_on_image lib img top_text bottom_text w = Inr (r, w')"
  shows "r = img \<and> im_width (objs w' r) = im_width (objs w img)
                \<and> im_height (objs w' r) = im_height (objs w img)"
  using render_ref[OF assms(2)] render_size[OF assms] by simp

theorem C1_size_preserved_witness:
  "keeps_size (block_pillow []) \<and>
   im_width (objs (snd (projr (draw_text_on_image (block_pillow []) 0 ''hi'' ''there'' (grey_world 20 30)))) 0) = 20 \<and>
   im_height (objs (snd (projr (draw_text_on_image (block_pillow []) 0 ''hi'' ''there'' (grey_world 20 30)))) 0) = 30"
proof -
  have k: "keeps_size (block_pillow [])" by (rule block_pillow_keeps_size)
  have e: "draw_text_on_image (block_pillow []) 0 ''hi'' ''there'' (grey_world 20 30) =
           Inr (0, snd (projr (draw_text_on_image (block_pillow []) 0 ''hi'' ''there'' (grey_world 20 30))))"
    by (rule block_render_returns)
  from C1_size_preserved[OF k e] k show ?thesis
    by (simp add: grey_world_def grey_image_def)
qed

text \<open>
  C2. With both captions empty the renderer returns the image it was given with every
  pixel as it was: no drawing call is made.
\<close>

theorem C2_empty_captions_identity:
  assumes "draw_text_on_image lib img [] [] w = Inr (r, w')"
  shows "r = img \<and> objs w' r = objs w img \<and> im_pixels (objs w' r) = im_pixels (objs w img)
         \<and> new_calls w w' = []"
  using render_empty[OF assms] by (simp add: new_calls_def)

theorem C2_empty_captions_identity_witness:
  "objs (snd (projr (draw_text_on_image (block_pillow []) 0 [] [] (grey_world 20 30)))) 0 = grey_image 20 30
   \<and> new_calls (grey_world 20 30) (snd (projr (draw_text_on_image (block_pillow []) 0 [] [] (grey_world 20 30)))) = []"
proof -
  have e: "draw_text_on_image (block_pillow []) 0 [] [] (grey_world 20 30) =
           Inr (0, snd (projr (draw_text_on_image (block_pillow []) 0 [] [] (grey_world 20 30))))"
    by (rule block_render_returns)
  from C2_empty_captions_identity[OF e] show ?thesis
    by (simp add: grey_world_def)
qed

text \<open>
  C3, as stated (the renderer leaves the image passed to it unchanged and returns a new
  bitmap), fails: the renderer draws on the image object it is given and returns that
  same object. On a 10 by 12 grey image with the caption "a", the returned reference is
  the input reference and the pixel at column 2 of row 10 of that object has turned
  white.
\<close>

theorem C3_renderer_draws_in_place:
  "fst (projr (draw_text_on_image (block_pillow []) 0 ''a'' [] (grey_world 10 12))) = 0
   \<and> im_pixels (objs (snd (projr (draw_text_on_image (block_pillow []) 0 ''a'' [] (grey_world 10 12)))) 0) ! 102
        = (255, 255, 255)
   \<and> im_pixels (objs (grey_world 10 12) 0) ! 102 = (128, 128, 128)"
proof -
  have w: "grey_world 10 12 = grey_world 10 12\<lparr>next_ref := 1\<rparr>"
    by (simp add: grey_world_def)
  have "draw_text_on_image (block_pillow []) 0 ''a'' [] (grey_world 10 12) =
     Inr (0, draw_text_with_outline (block_pillow []) 0 DefaultFont ''A'' 2 10
               (grey_world 10 12\<lparr>next_ref := 1, ui := [StWarning font_warning]\<rparr>))"
    by (subst w) (rule block_render_a)
  then show ?thesis
    by (simp add: block_outline_a_pixel) (simp add: grey_world_def grey_image_def)
qed

text \<open>
  C3, amended. The renderer draws in place and returns the object it was given; the
  page (line 166) calls it on \<open>image.copy()\<close>, so the image the page holds is unchanged
  after the call and the meme is an image object distinct from it.
\<close>

theorem C3_caller_image_kept:
  assumes "img < next_ref w"
      and "create_meme lib img top_text bottom_text w = Inr (Some m, w')"
  shows "m = next_ref w \<and> m \<noteq> img \<and> objs w' img = objs w img
         \<and> draw_text_on_image lib m top_text bottom_text (snd (image_copy img w)) = Inr (m, w')"
proof -
  from assms(2) have d: "draw_text_on_image lib (next_ref w) top_text bottom_text (snd (image_copy img w)) = Inr (m, w')"
    by (auto simp: create_meme_def image_copy_def split: if_splits sum.splits prod.splits)
  from render_ref[OF d] have m: "m = next_ref w" .
  with assms(1) have ne: "img \<noteq> next_ref w" by simp
  from render_other_objs[OF d ne] ne have "objs w' img = objs w img"
    by (simp add: image_copy_simps)
  with m ne d show ?thesis by simp
qed

theorem C3_caller_image_kept_witness:
  "(0::nat) < next_ref (grey_world 10 12)
   \<and> fst (projr (create_meme (block_pillow []) 0 ''a'' [] (grey_world 10 12))) = Some 1
   \<and> objs (snd (projr (create_meme (block_pillow []) 0 ''a'' [] (grey_world 10 12)))) 0 = grey_image 10 12
   \<and> im_pixels (objs (snd (projr (create_meme (block_pillow []) 0 ''a'' [] (grey_world 10 12)))) 1) ! 102
        = (255, 255, 255)"
proof -
  define w' where "w' = draw_text_with_outline (block_pillow []) 1 DefaultFont ''A'' 2 10
               (grey_world 10 12\<lparr>next_ref := 2, ui := [StWarning font_warning]\<rparr>)"
  have n: "(0::nat) < next_ref (grey_world 10 12)" by (simp add: grey_world_def)
  have c: "image_copy 0 (grey_world 10 12) = (1, grey_world 10 12\<lparr>next_ref := 2\<rparr>)"
    by (simp add: image_copy_def grey_world_def fun_eq_iff)
  have e: "create_meme (block_pillow []) 0 ''a'' [] (grey_world 10 12) = Inr (Some 1, w')"
    by (simp add: create_meme_def c block_render_a w'_def)
  have p: "im_pixels (objs w' 1) ! 102 = (255, 255, 255)"
    unfolding w'_def by (rule block_outline_a_pixel)
  from C3_caller_image_kept[OF n e] n p show ?thesis
    unfolding e by (simp add: grey_world_def)
qed

text \<open>
  C4. The text of every drawing call is the upper-cased caption of its slot, five calls
  for each non-empty caption, the top one first; no lower-case letter a to z is left in
  what is drawn.
\<close>

theorem C4_upper_cased:
  assumes "draw_text_on_image lib img top_text bottom_text w = Inr (r, w')"
  shows "map tc_text (new_calls w w') =
           (if top_text = [] then [] else replicate 5 (upper top_text)) @
           (if bottom_text = [] then [] else replicate 5 (upper bottom_text))
         \<and> filter islower_char (upper top_text @ upper bottom_text) = []"
proof -
  from render_font[OF assms] obtain f w0
    where f: "load_font lib (int (im_width (objs w img) div 10)) w = Inr (f, w0)" by blast
  show ?thesis
    using render_new_calls[OF assms f] upper_no_lower
    by (auto simp: texts_outline_calls filter_empty_conv)
qed

theorem C4_upper_cased_witness:
  "map tc_text (new_calls (grey_world 400 400)
      (snd (projr (draw_text_on_image (block_pillow [''impact.ttf'']) 0 ''hello'' ''bye'' (grey_world 400 400))))) =
     [''HELLO'', ''HELLO'', ''HELLO'', ''HELLO'', ''HELLO'', ''BYE'', ''BYE'', ''BYE'', ''BYE'', ''BYE'']
   \<and> filter islower_char (''HELLO'' @ ''BYE'') = []"
proof -
  have e: "draw_text_on_image (block_pillow [''impact.ttf'']) 0 ''hello'' ''bye'' (grey_world 400 400) =
           Inr (0, snd (projr (draw_text_on_image (block_pillow [''impact.ttf'']) 0 ''hello'' ''bye'' (grey_world 400 400))))"
    by (rule block_render_returns)
  from C4_upper_cased[OF e] show ?thesis
    by (simp add: upper_hello upper_bye numeral_eq_Suc)
qed

text \<open>
  C5, as stated (a caption narrower than the image has the midpoint of its bounding box
  within one pixel of the midpoint of the image), fails when the box the library measures
  does not start at the anchor. With a left bearing of 2 the caption "HELLO", 100 wide
  on a 400 wide image, is anchored at x = 150 and its box is centred at 202.
\<close>

theorem C5_midpoint_off_centre:
  "bbox_width (ImageDraw_textbbox (block_pillow [''impact.ttf'']) (0, 0) ''HELLO'' (FreeTypeFont ''impact.ttf'' 40))
     < real (im_width (objs (grey_world 400 400) 0))
   \<and> last (top_calls ''hello'' (grey_world 400 400)
        (snd (projr (draw_text_on_image (block_pillow [''impact.ttf'']) 0 ''hello'' ''bye'' (grey_world 400 400)))))
      = \<lparr>tc_image = 0, tc_xy = (150, 10), tc_text = ''HELLO'', tc_font = FreeTypeFont ''impact.ttf'' 40,
          tc_fill = ''white''\<rparr>
   \<and> \<not> \<bar>bbox_mid_x (placed_bbox (block_pillow [''impact.ttf''])
          (last (top_calls ''hello'' (grey_world 400 400)
             (snd (projr (draw_text_on_image (block_pillow [''impact.ttf'']) 0 ''hello'' ''bye'' (grey_world 400 400)))))))
        - real (im_width (objs (grey_world 400 400) 0)) / 2\<bar> \<le> 1"
  by (simp add: top_calls_def block_render_hello_bye length_outline_calls last_outline_calls
        placed_bbox_def bbox_mid_x_def bbox_width_def block_pillow_sel block_bbox_def)
     (simp add: grey_world_def grey_image_def)

text \<open>
  C5, amended. Every non-empty caption is drawn at \<open>x = (width - textWidth) / 2\<close>, the
  outline at \<open>x - 2\<close> and \<open>x + 2\<close>; the horizontal midpoint of the bounding box of the
  caption drawn there is the midpoint of the image plus the left edge of the box measured
  at the origin, so it is within one pixel of the midpoint of the image exactly when that
  left edge is at most one pixel from 0.
\<close>

theorem C5_centering_offset:
  assumes "bbox_moves lib"
      and "draw_text_on_image lib img top_text bottom_text w = Inr (r, w')"
      and "load_font lib (int (im_width (objs w img) div 10)) w = Inr (f, w0)"
      and "ImageDraw_textbbox lib (0, 0) (upper top_text) f = (a0, a1, a2, a3)"
      and "ImageDraw_textbbox lib (0, 0) (upper bottom_text) f = (c0, c1, c2, c3)"
  shows "(top_text \<noteq> [] \<longrightarrow>
            map (fst \<circ> tc_xy) (top_calls top_text w w') =
              [(real (im_width (objs w img)) - (a2 - a0)) / 2 - 2,
               (real (im_width (objs w img)) - (a2 - a0)) / 2 + 2,
               (real (im_width (objs w img)) - (a2 - a0)) / 2 - 2,
               (real (im_width (objs w img)) - (a2 - a0)) / 2 + 2,
               (real (im_width (objs w img)) - (a2 - a0)) / 2] \<and>
            bbox_mid_x (placed_bbox lib (last (top_calls top_text w w'))) =
              real (im_width (objs w img)) / 2 + a0)
       \<and> (bottom_text \<noteq> [] \<longrightarrow>
            map (fst \<circ> tc_xy) (bottom_calls top_text w w') =
              [(real (im_width (objs w img)) - (c2 - c0)) / 2 - 2,
               (real (im_width (objs w img)) - (c2 - c0)) / 2 + 2,
               (real (im_width (objs w img)) - (c2 - c0)) / 2 - 2,
               (real (im_width (objs w img)) - (c2 - c0)) / 2 + 2,
               (real (im_width (objs w img)) - (c2 - c0)) / 2] \<and>
            bbox_mid_x (placed_bbox lib (last (bottom_calls top_text w w'))) =
              real (im_width (objs w img)) / 2 + c0)"
proof (intro conjI impI)
  assume t: "top_text \<noteq> []"
  note tc = render_top_calls[OF assms(2,3) t]
  show "map (fst \<circ> tc_xy) (top_calls top_text w w') =
              [(real (im_width (objs w img)) - (a2 - a0)) / 2 - 2,
               (real (im_width (objs w img)) - (a2 - a0)) / 2 + 2,
               (real (im_width (objs w img)) - (a2 - a0)) / 2 - 2,
               (real (im_width (objs w img)) - (a2 - a0)) / 2 + 2,
               (real (im_width (objs w img)) - (a2 - a0)) / 2]"
    by (simp add: tc outline_calls_def caption_x_def assms(4))
  show "bbox_mid_x (placed_bbox lib (last (top_calls top_text w w'))) =
              real (im_width (objs w img)) / 2 + a0"
    using assms(1)[unfolded bbox_moves_def, rule_format, of _ _ "upper top_text" f]
    by (simp add: tc outline_calls_def caption_x_def assms(4) placed_bbox_def bbox_mid_x_def field_simps)
next
  assume b: "bottom_text \<noteq> []"
  note bc = render_bottom_calls[OF assms(2,3) b]
  show "map (fst \<circ> tc_xy) (bottom_calls top_text w w') =
              [(real (im_width (objs w img)) - (c2 - c0)) / 2 - 2,
               (real (im_width (objs w img)) - (c2 - c0)) / 2 + 2,
               (real (im_width (objs w img)) - (c2 - c0)) / 2 - 2,
               (real (im_width (objs w img)) - (c2 - c0)) / 2 + 2,
               (real (im_width (objs w img)) - (c2 - c0)) / 2]"
    by (simp add: bc outline_calls_def caption_x_def assms(5))
  show "bbox_mid_x (placed_bbox lib (last (bottom_calls top_text w w'))) =
              real (im_width (objs w img)) / 2 + c0"
    using assms(1)[unfolded bbox_moves_def, rule_format, of _ _ "upper bottom_text" f]
    by (simp add: bc outline_calls_def caption_x_def assms(5) placed_bbox_def bbox_mid_x_def field_simps)
qed

theorem C5_centering_offset_witness:
  "bbox_moves (block_pillow [''impact.ttf'']) \<and>
   map (fst \<circ> tc_xy)
     (top_calls ''hello'' (grey_world 400 400)
        (snd (projr (draw_text_on_image (block_pillow [''impact.ttf'']) 0 ''hello'' ''bye'' (grey_world 400 400))))) =
     [148, 152, 148, 152, 150] \<and>
   bbox_mid_x (placed_bbox (block_pillow [''impact.ttf''])
     (last (top_calls ''hello'' (grey_world 400 400)
        (snd (projr (draw_text_on_image (block_pillow [''impact.ttf'']) 0 ''hello'' ''bye'' (grey_world 400 400))))))) = 202 \<and>
   map (fst \<circ> tc_xy)
     (bottom_calls ''hello'' (grey_world 400 400)
        (snd (projr (draw_text_on_image (block_pillow [''impact.ttf'']) 0 ''hello'' ''bye'' (grey_world 400 400))))) =
     [168, 172, 168, 172, 170] \<and>
   bbox_mid_x (placed_bbox (block_pillow [''impact.ttf''])
     (last (bottom_calls ''hello'' (grey_world 400 400)
        (snd (projr (draw_text_on_image (block_pillow [''impact.ttf'']) 0 ''hello'' ''bye'' (grey_world 400 400))))))) = 202"
proof -
  have m: "bbox_moves (block_pillow [''impact.ttf''])" by (rule block_pillow_bbox_moves)
  have f: "load_font (block_pillow [''impact.ttf'']) (int (im_width (objs (grey_world 400 400) 0) div 10)) (grey_world 400 400)
             = Inr (FreeTypeFont ''impact.ttf'' 40, grey_world 400 400)"
    by (simp add: block_load_font_impact grey_world_def grey_image_def)
  have a: "ImageDraw_textbbox (block_pillow [''impact.ttf'']) (0, 0) (upper ''hello'') (FreeTypeFont ''impact.ttf'' 40)
             = (2, 8, 102, 40)"
    by (simp add: upper_hello block_pillow_def block_bbox_def)
  have c: "ImageDraw_textbbox (block_pillow [''impact.ttf'']) (0, 0) (upper ''bye'') (FreeTypeFont ''impact.ttf'' 40)
             = (2, 8, 62, 40)"
    by (simp add: upper_bye block_pillow_def block_bbox_def)
  from C5_centering_offset[OF m block_render_returns f a c] m show ?thesis
    by (simp add: grey_world_def grey_image_def)
qed

text \<open>
  C6, as stated (the top edge of the top caption is 10 below the top of the image, the
  bottom edge of the bottom caption 10 above its bottom), fails when the box the library
  measures starts below the anchor. With glyph tops 8 below the anchor on a 400 high image
  the top caption has its top edge at 18 and the bottom caption ends 2 above the bottom.
\<close>

theorem C6_edges_not_at_margin:
  "bbox_top (placed_bbox (block_pillow [''impact.ttf''])
     (last (top_calls ''hello'' (grey_world 400 400)
        (snd (projr (draw_text_on_image (block_pillow [''impact.ttf'']) 0 ''hello'' ''bye'' (grey_world 400 400)))))))
     \<noteq> 10
   \<and> real (im_height (objs (grey_world 400 400) 0)) -
      bbox_bottom (placed_bbox (block_pillow [''impact.ttf''])
       (last (bottom_calls ''hello'' (grey_world 400 400)
        (snd (projr (draw_text_on_image (block_pillow [''impact.ttf'']) 0 ''hello'' ''bye'' (grey_world 400 400)))))))
     \<noteq> 10"
  by (simp add: top_calls_def bottom_calls_def block_render_hello_bye length_outline_calls last_outline_calls
        placed_bbox_def bbox_top_def bbox_bottom_def block_pillow_sel block_bbox_def)
     (simp add: grey_world_def grey_image_def)

text \<open>
  C6, amended. A non-empty top caption is anchored at \<open>y = 10\<close> and a non-empty bottom
  caption at \<open>y = height - textHeight - 10\<close>, the outline at \<open>y - 2\<close> and \<open>y + 2\<close>. With
  \<open>top\<close> the top edge of the box measured at the origin, the top edge of the top caption is
  at \<open>10 + top\<close> and the bottom edge of the bottom caption is \<open>10 - top\<close> above the bottom
  of the image: the margins are 10 exactly when \<open>top\<close> is 0.
\<close>

theorem C6_margins_offset:
  assumes "bbox_moves lib"
      and "draw_text_on_image lib img top_text bottom_text w = Inr (r, w')"
      and "load_font lib (int (im_width (objs w img) div 10)) w = Inr (f, w0)"
      and "ImageDraw_textbbox lib (0, 0) (upper top_text) f = (a0, a1, a2, a3)"
      and "ImageDraw_textbbox lib (0, 0) (upper bottom_text) f = (c0, c1, c2, c3)"
  shows "(top_text \<noteq> [] \<longrightarrow>
            map (snd \<circ> tc_xy) (top_calls top_text w w') = [8, 8, 12, 12, 10] \<and>
            bbox_top (placed_bbox lib (last (top_calls top_text w w'))) = 10 + a1)
       \<and> (bottom_text \<noteq> [] \<longrightarrow>
            map (snd \<circ> tc_xy) (bottom_calls top_text w w') =
              [real (im_height (objs w img)) - (c3 - c1) - 10 - 2,
               real (im_height (objs w img)) - (c3 - c1) - 10 - 2,
               real (im_height (objs w img)) - (c3 - c1) - 10 + 2,
               real (im_height (objs w img)) - (c3 - c1) - 10 + 2,
               real (im_height (objs w img)) - (c3 - c1) - 10] \<and>
            real (im_height (objs w img)) - bbox_bottom (placed_bbox lib (last (bottom_calls top_text w w')))
              = 10 - c1)"
proof (intro conjI impI)
  assume t: "top_text \<noteq> []"
  note tc = render_top_calls[OF assms(2,3) t]
  show "map (snd \<circ> tc_xy) (top_calls top_text w w') = [8, 8, 12, 12, 10]"
    by (simp add: tc ys_outline_calls)
  show "bbox_top (placed_bbox lib (last (top_calls top_text w w'))) = 10 + a1"
    using assms(1)[unfolded bbox_moves_def, rule_format, of _ _ "upper top_text" f]
    by (simp add: tc last_outline_calls assms(4) placed_bbox_def bbox_top_def)
next
  assume b: "bottom_text \<noteq> []"
  note bc = render_bottom_calls[OF assms(2,3) b]
  show "map (snd \<circ> tc_xy) (bottom_calls top_text w w') =
              [real (im_height (objs w img)) - (c3 - c1) - 10 - 2,
               real (im_height (objs w img)) - (c3 - c1) - 10 - 2,
               real (im_height (objs w img)) - (c3 - c1) - 10 + 2,
               real (im_height (objs w img)) - (c3 - c1) - 10 + 2,
               real (im_height (objs w img)) - (c3 - c1) - 10]"
    by (simp add: bc ys_outline_calls bottom_y_def assms(5))
  show "real (im_height (objs w img)) - bbox_bottom (placed_bbox lib (last (bottom_calls top_text w w')))
              = 10 - c1"
    using assms(1)[unfolded bbox_moves_def, rule_format, of _ _ "upper bottom_text" f]
    by (simp add: bc last_outline_calls bottom_y_def assms(5) placed_bbox_def bbox_bottom_def)
qed

theorem C6_margins_offset_witness:
  "bbox_moves (block_pillow [''impact.ttf'']) \<and>
   map (snd \<circ> tc_xy)
     (top_calls ''hello'' (grey_world 400 400)
        (snd (projr (draw_text_on_image (block_pillow [''impact.ttf'']) 0 ''hello'' ''bye'' (grey_world 400 400))))) =
     [8, 8, 12, 12, 10] \<and>
   bbox_top (placed_bbox (block_pillow [''impact.ttf''])
     (last (top_calls ''hello'' (grey_world 400 400)
        (snd (projr (draw_text_on_image (block_pillow [''impact.ttf'']) 0 ''hello'' ''bye'' (grey_world 400 400))))))) = 18 \<and>
   map (snd \<circ> tc_xy)
     (bottom_calls ''hello'' (grey_world 400 400)
        (snd (projr (draw_text_on_image (block_pillow [''impact.ttf'']) 0 ''hello'' ''bye'' (grey_world 400 400))))) =
     [356, 356, 360, 360, 358] \<and>
   400 - bbox_bottom (placed_bbox (block_pillow [''impact.ttf''])
     (last (bottom_calls ''hello'' (grey_world 400 400)
        (snd (projr (draw_text_on_image (block_pillow [''impact.ttf'']) 0 ''hello'' ''bye'' (grey_world 400 400))))))) = 2"
proof -
  have m: "bbox_moves (block_pillow [''impact.ttf''])" by (rule block_pillow_bbox_moves)
  have f: "load_font (block_pillow [''impact.ttf'']) (int (im_width (objs (grey_world 400 400) 0) div 10)) (grey_world 400 400)
             = Inr (FreeTypeFont ''impact.ttf'' 40, grey_world 400 400)"
    by (simp add: block_load_font_impact grey_world_def grey_image_def)
  have a: "ImageDraw_textbbox (block_pillow [''impact.ttf'']) (0, 0) (upper ''hello'') (FreeTypeFont ''impact.ttf'' 40)
             = (2, 8, 102, 40)"
    by (simp add: upper_hello block_pillow_def block_bbox_def)
  have c: "ImageDraw_textbbox (block_pillow [''impact.ttf'']) (0, 0) (upper ''bye'') (FreeTypeFont ''impact.ttf'' 40)
             = (2, 8, 62, 40)"
    by (simp add: upper_bye block_pillow_def block_bbox_def)
  from C6_margins_offset[OF m block_render_returns f a c] m show ?thesis
    by (simp add: grey_world_def grey_image_def)
qed

text \<open>
  C7, as stated (no glyphs are drawn for a slot whose string is empty or only
  whitespace), fails for whitespace: the renderer tests the string for emptiness only. A
  caption of one space gets the five drawing calls of any caption, with the text " ".
\<close>

theorem C7_whitespace_is_drawn:
  "map tc_text (new_calls (grey_world 400 400)
      (snd (projr (draw_text_on_image (block_pillow [''impact.ttf'']) 0 '' '' [] (grey_world 400 400))))) =
     ['' '', '' '', '' '', '' '', '' '']
   \<and> map tc_fill (new_calls (grey_world 400 400)
      (snd (projr (draw_text_on_image (block_pillow [''impact.ttf'']) 0 '' '' [] (grey_world 400 400))))) =
     [''black'', ''black'', ''black'', ''black'', ''white'']"
proof -
  have f: "load_font (block_pillow [''impact.ttf'']) (int (im_width (objs (grey_world 400 400) 0) div 10)) (grey_world 400 400)
             = Inr (FreeTypeFont ''impact.ttf'' 40, grey_world 400 400)"
    by (simp add: block_load_font_impact grey_world_def grey_image_def)
  show ?thesis
    using render_new_calls[OF block_render_returns f, of "'' ''" "[]"]
    by (simp add: upper_space outline_calls_def)
qed

text \<open>
  C7, amended. The drawing calls of one call of the renderer are those of the top slot
  followed by those of the bottom slot; a slot whose string is empty gets no call, a slot
  whose string is not empty, of whitespace or not, gets exactly five, each with the
  upper-cased string.
\<close>

theorem C7_empty_slot_not_drawn:
  assumes "draw_text_on_image lib img top_text bottom_text w = Inr (r, w')"
  shows "new_calls w w' = top_calls top_text w w' @ bottom_calls top_text w w'
       \<and> length (top_calls top_text w w') = (if top_text = [] then 0 else 5)
       \<and> length (bottom_calls top_text w w') = (if bottom_text = [] then 0 else 5)
       \<and> map tc_text (top_calls top_text w w') = replicate (length (top_calls top_text w w')) (upper top_text)
       \<and> map tc_text (bottom_calls top_text w w') = replicate (length (bottom_calls top_text w w')) (upper bottom_text)"
proof -
  from render_font[OF assms] obtain f w0
    where f: "load_font lib (int (im_width (objs w img) div 10)) w = Inr (f, w0)" by blast
  show ?thesis
    using render_new_calls[OF assms f]
    by (auto simp: top_calls_def bottom_calls_def length_outline_calls texts_outline_calls)
qed

theorem C7_empty_slot_not_drawn_witness:
  "new_calls (grey_world 400 400)
      (snd (projr (draw_text_on_image (block_pillow [''impact.ttf'']) 0 [] ''bye'' (grey_world 400 400)))) =
     bottom_calls [] (grey_world 400 400)
      (snd (projr (draw_text_on_image (block_pillow [''impact.ttf'']) 0 [] ''bye'' (grey_world 400 400))))
   \<and> top_calls [] (grey_world 400 400)
      (snd (projr (draw_text_on_image (block_pillow [''impact.ttf'']) 0 [] ''bye'' (grey_world 400 400)))) = []
   \<and> map tc_text (bottom_calls [] (grey_world 400 400)
      (snd (projr (draw_text_on_image (block_pillow [''impact.ttf'']) 0 [] ''bye'' (grey_world 400 400))))) =
     [''BYE'', ''BYE'', ''BYE'', ''BYE'', ''BYE'']"
proof -
  have e: "draw_text_on_image (block_pillow [''impact.ttf'']) 0 [] ''bye'' (grey_world 400 400) =
           Inr (0, snd (projr (draw_text_on_image (block_pillow [''impact.ttf'']) 0 [] ''bye'' (grey_world 400 400))))"
    by (rule block_render_returns)
  from C7_empty_slot_not_drawn[OF e] show ?thesis
    by (simp add: upper_bye numeral_eq_Suc)
qed

text \<open>
  C8. Each caption is drawn with the outline-then-fill technique: the text is drawn
  exactly four times in black at (x-2, y-2), (x+2, y-2), (x-2, y+2), (x+2, y+2), in that
  order, and then once in white at (x, y); these five calls are all that
  \<open>draw_text_with_outline\<close> does, and the bitmap is the result of the five drawings in
  that order.
\<close>

theorem C8_outline_then_fill:
  "drawn (draw_text_with_outline lib d f s x y w) =
     drawn w @
       [\<lparr>tc_image = d, tc_xy = (x - 2, y - 2), tc_text = s, tc_font = f, tc_fill = ''black''\<rparr>,
        \<lparr>tc_image = d, tc_xy = (x + 2, y - 2), tc_text = s, tc_font = f, tc_fill = ''black''\<rparr>,
        \<lparr>tc_image = d, tc_xy = (x - 2, y + 2), tc_text = s, tc_font = f, tc_fill = ''black''\<rparr>,
        \<lparr>tc_image = d, tc_xy = (x + 2, y + 2), tc_text = s, tc_font = f, tc_fill = ''black''\<rparr>,
        \<lparr>tc_image = d, tc_xy = (x, y), tc_text = s, tc_font = f, tc_fill = ''white''\<rparr>]
   \<and> objs (draw_text_with_outline lib d f s x y w) d =
       ImageDraw_text lib (x, y) s f ''white''
        (ImageDraw_text lib (x + 2, y + 2) s f ''black''
          (ImageDraw_text lib (x - 2, y + 2) s f ''black''
            (ImageDraw_text lib (x + 2, y - 2) s f ''black''
              (ImageDraw_text lib (x - 2, y - 2) s f ''black'' (objs w d)))))"
  by (simp add: draw_text_with_outline_def Let_def draw_text_def)

text \<open>
  C9. When loading impact.ttf at size width / 10 raises the font-lookup error
  (\<open>IOError\<close>), the renderer shows a warning, draws every caption with the built-in default
  font and returns; and a call of the renderer never fails with that error.
\<close>

theorem C9_font_fallback:
  "(ImageFont_truetype lib ''impact.ttf'' (int (im_width (objs w img) div 10)) = Inl IOError \<longrightarrow>
      (\<exists>w'. draw_text_on_image lib img top_text bottom_text w = Inr (img, w')
           \<and> ui w' = ui w @ [StWarning font_warning]
           \<and> map tc_font (new_calls w w') =
               replicate (length (new_calls w w')) (ImageFont_load_default lib)
           \<and> length (new_calls w w') =
               (if top_text = [] then 0 else 5) + (if bottom_text = [] then 0 else 5)))
   \<and> draw_text_on_image lib img top_text bottom_text w \<noteq> Inl IOError"
proof (intro conjI impI)
  assume io: "ImageFont_truetype lib ''impact.ttf'' (int (im_width (objs w img) div 10)) = Inl IOError"
  then have f: "load_font lib (int (im_width (objs w img) div 10)) w =
                  Inr (ImageFont_load_default lib, w\<lparr>ui := ui w @ [StWarning font_warning]\<rparr>)"
    by (simp add: load_font_def)
  have "\<not> isl (draw_text_on_image lib img top_text bottom_text w)"
    using io render_fails[of lib img top_text bottom_text w] by (auto simp: isl_def)
  then obtain r w' where e: "draw_text_on_image lib img top_text bottom_text w = Inr (r, w')"
    by (cases "draw_text_on_image lib img top_text bottom_text w") auto
  from render_ref[OF e] e have e': "draw_text_on_image lib img top_text bottom_text w = Inr (img, w')"
    by simp
  have "ui w' = ui w @ [StWarning font_warning]"
    using render_ui[OF e f] by simp
  moreover have "map tc_font (new_calls w w') =
               replicate (length (new_calls w w')) (ImageFont_load_default lib)"
    using render_new_calls[OF e f]
    by (auto simp: fonts_outline_calls length_outline_calls replicate_add[symmetric] simp del: replicate_add)
  moreover have "length (new_calls w w') =
               (if top_text = [] then 0 else 5) + (if bottom_text = [] then 0 else 5)"
    using render_new_calls[OF e f] by (auto simp: length_outline_calls)
  ultimately show "\<exists>w'. draw_text_on_image lib img top_text bottom_text w = Inr (img, w')
           \<and> ui w' = ui w @ [StWarning font_warning]
           \<and> map tc_font (new_calls w w') =
               replicate (length (new_calls w w')) (ImageFont_load_default lib)
           \<and> length (new_calls w w') =
               (if top_text = [] then 0 else 5) + (if bottom_text = [] then 0 else 5)"
    using e' by blast
next
  show "draw_text_on_image lib img top_text bottom_text w \<noteq> Inl IOError"
    by (simp add: render_fails)
qed

theorem C9_font_fallback_witness:
  "ImageFont_truetype (block_pillow []) ''impact.ttf'' (int (im_width (objs (grey_world 400 400) 0) div 10)) = Inl IOError
   \<and> draw_text_on_image (block_pillow []) 0 ''hello'' ''bye'' (grey_world 400 400) =
       Inr (0, snd (projr (draw_text_on_image (block_pillow []) 0 ''hello'' ''bye'' (grey_world 400 400))))
   \<and> ui (snd (projr (draw_text_on_image (block_pillow []) 0 ''hello'' ''bye'' (grey_world 400 400)))) =
       [StWarning font_warning]
   \<and> map tc_font (new_calls (grey_world 400 400)
         (snd (projr (draw_text_on_image (block_pillow []) 0 ''hello'' ''bye'' (grey_world 400 400))))) =
       replicate 10 DefaultFont"
proof -
  have io: "ImageFont_truetype (block_pillow []) ''impact.ttf'' (int (im_width (objs (grey_world 400 400) 0) div 10)) = Inl IOError"
    by (simp add: block_pillow_def)
  from C9_font_fallback[of "block_pillow []" "grey_world 400 400" 0 "''hello''" "''bye''"] io
  obtain w' where w': "draw_text_on_image (block_pillow []) 0 ''hello'' ''bye'' (grey_world 400 400) = Inr (0, w')"
    "ui w' = ui (grey_world 400 400) @ [StWarning font_warning]"
    "map tc_font (new_calls (grey_world 400 400) w') =
       replicate (length (new_calls (grey_world 400 400) w')) (ImageFont_load_default (block_pillow []))"
    "length (new_calls (grey_world 400 400) w') = (if ''hello'' = [] then 0 else 5) + (if ''bye'' = [] then 0 else 5)"
    by blast
  show ?thesis
    unfolding w'(1) using io w'(2,3,4)
    by (simp add: block_pillow_sel) (simp add: grey_world_def)
qed

section \<open>Properties of the caption suggestion\<close>

lemma try_bind_Inr:
  "try_bind m k = Inr r \<longleftrightarrow> (\<exists>x. m = Inr x \<and> k x = Inr r)"
  by (cases m) (auto simp: try_bind_def)

lemma getitem_str_Inr: "py_getitem_str j k = Inr v \<longleftrightarrow> json_field k j = Some v"
  by (cases j) (auto split: option.splits)

lemma getitem_0_then_str:
  "(\<exists>x. py_getitem_0 j = Inr x \<and> json_field k x = Some v) \<longleftrightarrow>
   (\<exists>x. json_first j = Some x \<and> json_field k x = Some v)"
  by (cases j) (auto split: list.splits)

lemma strip_Inr: "py_strip j = Inr c \<longleftrightarrow> (\<exists>s. json_string j = Some s \<and> c = strip s)"
  by (cases j) auto

lemma contains_field: "json_field k j = Some v \<Longrightarrow> py_contains k j = Inr True"
  by (cases j) (auto dest: map_of_SomeD intro: rev_image_eqI)

lemma read_caption_Inr:
  "read_caption j = Inr c \<longleftrightarrow> (\<exists>s. caption_in_response j = Some s \<and> c = strip s)"
proof -
  have "read_caption j = Inr c \<longleftrightarrow>
        (\<exists>a. json_field ''candidates'' j = Some a \<and>
         (\<exists>d. (\<exists>b. py_getitem_0 a = Inr b \<and> json_field ''content'' b = Some d) \<and>
          (\<exists>p. json_field ''parts'' d = Some p \<and>
           (\<exists>t. (\<exists>q. py_getitem_0 p = Inr q \<and> json_field ''text'' q = Some t) \<and>
              py_strip t = Inr c))))"
    unfolding read_caption_def try_bind_Inr getitem_str_Inr by blast
  also have "\<dots> \<longleftrightarrow> (\<exists>s. caption_in_response j = Some s \<and> c = strip s)"
    unfolding getitem_0_then_str strip_Inr caption_in_response_def bind_eq_Some_conv by blast
  finally show ?thesis .
qed

lemma read_caption_None:
  "caption_in_response j = None \<Longrightarrow> \<exists>e. read_caption j = Inl e"
  using read_caption_Inr[of j] by (cases "read_caption j") auto

lemma get_ai_caption_ok:
  assumes "requests_post env (api_url api_key) (payload image_bytes) 60 = Inr r"
      and "\<not> (400 \<le> status_code r \<and> status_code r < 600)"
      and "json_body r = Some j"
      and "caption_in_response j = Some s"
  shows "get_ai_caption env image_bytes api_key u = (strip s, u)"
proof -
  from assms(4) have f: "json_field ''candidates'' j \<noteq> None"
    by (auto simp: caption_in_response_def bind_eq_Some_conv)
  then have c: "py_contains ''candidates'' j = Inr True"
    using contains_field by blast
  from assms(4) have rc: "read_caption j = Inr (strip s)"
    by (simp add: read_caption_Inr)
  show ?thesis using assms(1,2,3) c rc
    by (simp add: get_ai_caption_def try_bind_def raise_for_status_def response_json_def)
qed

lemma caption_in_caption_json: "caption_in_response (caption_json s) = Some s"
  by (simp add: caption_in_response_def caption_json_def)

text \<open>
  C10, as stated (every response that is not 2xx gives an error message and an empty
  string), fails for the statuses \<open>raise_for_status\<close> lets through: a response with status
  300 and a body of the expected shape gives its caption, stripped, and no message.
\<close>

theorem C10_redirect_status_not_an_error:
  "get_ai_caption (canned_net (Inr \<lparr>status_code = 300, json_body = Some (caption_json '' so true '')\<rparr>))
     [255, 216, 255] ''key'' [] = (''so true'', [])"
proof -
  have s: "strip '' so true '' = ''so true''" by code_simp
  show ?thesis
    using get_ai_caption_ok[of "canned_net (Inr \<lparr>status_code = 300, json_body = Some (caption_json '' so true '')\<rparr>)"
            "''key''" "[255, 216, 255]" "\<lparr>status_code = 300, json_body = Some (caption_json '' so true '')\<rparr>"
            "caption_json '' so true ''" "'' so true ''" "[]"]
    by (simp add: canned_net_def caption_in_caption_json s)
qed

text \<open>
  C10, amended. When the POST raises (a timeout among others), or the status is a client
  or server error status (400 to 599), or the body is not JSON or has not the caption at
  \<open>candidates[0].content.parts[0].text\<close>, the function returns the empty string and shows
  exactly one error message; no exception leaves it.
\<close>

theorem C10_failed_fetch_gives_error:
  assumes "fetch_failed (requests_post env (api_url api_key) (payload image_bytes) 60)"
  shows "\<exists>ev. get_ai_caption env image_bytes api_key u = ([], u @ [ev]) \<and> is_st_error ev"
proof (cases "requests_post env (api_url api_key) (payload image_bytes) 60")
  case (Inl e)
  then show ?thesis by (simp add: get_ai_caption_def try_bind_def)
next
  case (Inr r)
  show ?thesis
  proof (cases "400 \<le> status_code r \<and> status_code r < 600")
    case True
    then show ?thesis using Inr by (simp add: get_ai_caption_def try_bind_def raise_for_status_def)
  next
    case False
    show ?thesis
    proof (cases "json_body r")
      case None
      then show ?thesis using Inr False
        by (simp add: get_ai_caption_def try_bind_def raise_for_status_def response_json_def)
    next
      case (Some j)
      with assms Inr False have n: "caption_in_response j = None"
        by (simp add: fetch_failed_def)
      then obtain e where e: "read_caption j = Inl e" using read_caption_None by blast
      show ?thesis using Inr False Some e
        by (cases "py_contains ''candidates'' j")
           (auto simp: get_ai_caption_def try_bind_def raise_for_status_def response_json_def)
    qed
  qed
qed

theorem C10_failed_fetch_gives_error_witness:
  "fetch_failed (requests_post (canned_net (Inl Timeout)) (api_url ''key'') (payload [255, 216, 255]) 60)
   \<and> fst (get_ai_caption (canned_net (Inl Timeout)) [255, 216, 255] ''key'' []) = []
   \<and> is_st_error (last (snd (get_ai_caption (canned_net (Inl Timeout)) [255, 216, 255] ''key'' [])))
   \<and> fetch_failed (requests_post (canned_net (Inr \<lparr>status_code = 404, json_body = None\<rparr>))
         (api_url ''key'') (payload [255, 216, 255]) 60)
   \<and> fst (get_ai_caption (canned_net (Inr \<lparr>status_code = 404, json_body = None\<rparr>))
         [255, 216, 255] ''key'' []) = []
   \<and> is_st_error (last (snd (get_ai_caption (canned_net (Inr \<lparr>status_code = 404, json_body = None\<rparr>))
         [255, 216, 255] ''key'' [])))
   \<and> fetch_failed (requests_post (canned_net (Inr \<lparr>status_code = 200, json_body = Some (JObject [])\<rparr>))
         (api_url ''key'') (payload [255, 216, 255]) 60)
   \<and> fst (get_ai_caption (canned_net (Inr \<lparr>status_code = 200, json_body = Some (JObject [])\<rparr>))
         [255, 216, 255] ''key'' []) = []
   \<and> is_st_error (last (snd (get_ai_caption (canned_net (Inr \<lparr>status_code = 200, json_body = Some (JObject [])\<rparr>))
         [255, 216, 255] ''key'' [])))"
proof -
  have a: "fetch_failed (requests_post (canned_net (Inl Timeout)) (api_url ''key'') (payload [255, 216, 255]) 60)"
    by (simp add: fetch_failed_def canned_net_def)
  have b: "fetch_failed (requests_post (canned_net (Inr \<lparr>status_code = 404, json_body = None\<rparr>))
         (api_url ''key'') (payload [255, 216, 255]) 60)"
    by (simp add: fetch_failed_def canned_net_def)
  have c: "fetch_failed (requests_post (canned_net (Inr \<lparr>status_code = 200, json_body = Some (JObject [])\<rparr>))
         (api_url ''key'') (payload [255, 216, 255]) 60)"
    by (simp add: fetch_failed_def canned_net_def caption_in_response_def)
  from C10_failed_fetch_gives_error[OF a, of "[]"] obtain ev1
    where "get_ai_caption (canned_net (Inl Timeout)) [255, 216, 255] ''key'' [] = ([], [] @ [ev1])"
      and "is_st_error ev1" by blast
  moreover from C10_failed_fetch_gives_error[OF b, of "[]"] obtain ev2
    where "get_ai_caption (canned_net (Inr \<lparr>status_code = 404, json_body = None\<rparr>))
             [255, 216, 255] ''key'' [] = ([], [] @ [ev2])"
      and "is_st_error ev2" by blast
  moreover from C10_failed_fetch_gives_error[OF c, of "[]"] obtain ev3
    where "get_ai_caption (canned_net (Inr \<lparr>status_code = 200, json_body = Some (JObject [])\<rparr>))
             [255, 216, 255] ''key'' [] = ([], [] @ [ev3])"
      and "is_st_error ev3" by blast
  ultimately show ?thesis using a b c by simp
qed

end

